theory Spec2Isabelle
  imports Main "HOL-Library.AList" "HOL-Library.Sublist"
begin

section \<open>The Pea supervisor of \<open>jina/peapods/peas/__init__.py\<close>\<close>

text \<open>
  The module holds the worker entry point \<open>run\<close> and the class \<open>BasePea\<close>. Both talk to
  collaborators that live elsewhere (the Runtime classes, the control channel, the
  events shared with the worker). The embedding keeps the control flow of the module as
  it is written and takes the behaviour of each collaborator as a parameter: what a
  Runtime does when it is constructed, entered, run and exited; what the control channel
  answers to the k-th send; what a blocking wait returns. Every method appends what it
  does to a trace, so that the order of the effects can be stated.

  Exceptions are values of the type \<open>exn\<close>. All of them stand for subclasses of Python's
  \<open>Exception\<close>, the class the handlers of the module catch; \<open>KeyboardInterrupt\<close> and
  \<open>SystemExit\<close> are outside the model. The calls of the logger are taken to succeed.
\<close>

subsection \<open>Enumerations, exceptions, trace\<close>

datatype RuntimeBackendType = THREAD | PROCESS

datatype GatewayProtocolType = GRPC | HTTP | WEBSOCKET

text \<open>Of \<open>SocketType\<close> the module only compares with \<open>DEALER_CONNECT\<close>.\<close>

datatype SocketType = DEALER_CONNECT | OTHER_SOCKET nat

text \<open>
  \<open>Failure k\<close> is an exception raised by a collaborator (a Runtime, the control channel),
  tagged so that two of them can be told apart. \<open>ShutdownNotReceived t\<close> is the
  \<open>Exception('Shutdown signal was not received for t')\<close> of \<open>close\<close>, and \<open>TimeoutError t\<close>
  carries the ready-timeout in milliseconds. \<open>OSError n\<close>, \<open>AttributeError\<close> and
  \<open>OverflowError\<close> are the built-in exceptions of these names.
\<close>

datatype exn =
    RuntimeFailToStart
  | RuntimeRunForeverEarlyError
  | TimeoutError int
  | ShutdownNotReceived int
  | Failure nat
  | OSError int
  | AttributeError
  | OverflowError

datatype level = DEBUG | WARNING | ERROR | SUCCESS

datatype message =
    WaitingForReadyOrShutdown
  | SendingCommand string int
  | Repr exn
  | DuringInitialization exn
  | DuringClose exn
  | EmptyMessage
  | EnvsWithThread
  | ClosedBeforeReady
  | TerminatingAfterWaiting
  | TimeoutAfterWaiting int
  | ReadyMsg
  | StopMsg

datatype action =
    Log level message
  | SendCtrlMessage string
  | SetCancelEvent
  | WaitReadyOrShutdown "int option"
  | WaitShutdown int
  | WorkerTerminate
  | WorkerJoin
  | Sleep
  | LoggerClose
  | EnvironUpdate "(string \<times> string) list"
  | Unsetenv string
  | Construct
  | SetStarted
  | Enter
  | RunForever
  | Exit "exn option"
  | SetShutdown

subsection \<open>Configuration and state\<close>

text \<open>
  The fields of \<open>args\<close> that the module reads. \<open>env\<close> is \<open>None\<close> or a dictionary, as an
  association list; \<open>uses\<close> is \<open>None\<close> or a string; \<open>protocol\<close> is \<open>None\<close> when the
  namespace has no such attribute (\<open>hasattr(self.args, 'protocol')\<close> is false).
\<close>

record args =
  name :: string
  identity :: string
  quiet :: bool
  quiet_error :: bool
  env :: "(string \<times> string) list option"
  runtime_backend :: RuntimeBackendType
  runtime_cls :: string
  host :: string
  disable_remote :: bool
  uses :: "string option"
  protocol :: "GatewayProtocolType option"
  timeout_ready :: int
  timeout_ctrl :: int
  daemon :: bool
  socket_in :: SocketType

text \<open>
  The four events are one-shot booleans: the module only ever calls \<open>set\<close>, \<open>is_set\<close> and
  \<open>wait\<close> on them. Both the worker and the supervisor see them and both write a trace.
\<close>

record shared =
  is_started :: bool
  is_shutdown :: bool
  is_ready :: bool
  cancel_event :: bool
  trace :: "action list"

text \<open>
  The supervisor: \<open>self.args\<close>, \<open>self.runtime_cls\<close> (the class, named by its string),
  \<open>self._timeout_ctrl\<close>, and three counters that say how many times each blocking
  collaborator has been called so far.
\<close>

record pea = shared +
  self_args :: args
  self_runtime_cls :: string
  self_timeout_ctrl :: int
  n_sends :: nat
  n_ready_waits :: nat
  n_shutdown_waits :: nat
  logger_closed :: bool

text \<open>
  What the supervisor meets outside itself.
  \<^item> \<open>send_ctrl_message k c\<close>: the k-th call of \<open>send_ctrl_message\<close> (counted from 0), with
    command \<open>c\<close> and \<open>raise_exception=True\<close>, returns (\<open>None\<close>) or raises.
  \<^item> \<open>ready_or_shutdown_wait k\<close>: whether the k-th \<open>self.ready_or_shutdown.event.wait\<close>
    returns true, and the events the worker has set by then.
  \<^item> \<open>shutdown_wait k\<close>: whether the k-th \<open>self.is_shutdown.wait(timeout)\<close> returns true.
  \<^item> \<open>ready_or_shutdown_wait_raises k\<close> and \<open>shutdown_wait_raises k\<close>: what the k-th such
    wait raises when it does not return true, if anything (\<open>Event.wait\<close> raises
    \<open>OverflowError\<close> on a timeout that is too large).
  \<^item> \<open>terminate_raises\<close>: what \<open>self.worker.terminate()\<close> raises, if anything (on a
    \<open>multiprocessing.Process\<close> that was never started it raises \<open>AttributeError\<close>).
  \<^item> \<open>worker_exits\<close>: whether the worker ever finishes, that is whether \<open>join\<close> returns.
    \<open>close\<close> joins only a Pea that is ready, that is one whose worker has been started.
\<close>

record observed =
  fired :: bool
  sees_started :: bool
  sees_shutdown :: bool
  sees_ready :: bool

record world =
  send_ctrl_message :: "nat \<Rightarrow> string \<Rightarrow> exn option"
  ready_or_shutdown_wait :: "nat \<Rightarrow> observed"
  shutdown_wait :: "nat \<Rightarrow> bool"
  worker_exits :: bool
  ready_or_shutdown_wait_raises :: "nat \<Rightarrow> exn option"
  shutdown_wait_raises :: "nat \<Rightarrow> exn option"
  terminate_raises :: "exn option"

text \<open>
  A call either returns, raises, or blocks for ever (a wait without timeout on an event
  that is never set, a join on a worker that never exits).
\<close>

datatype outcome = Returned | Raised exn | Blocked

definition log :: "level \<Rightarrow> message \<Rightarrow> ('a shared_scheme) \<Rightarrow> ('a shared_scheme)" where
  "log l m s = s\<lparr>trace := trace s @ [Log l m]\<rparr>"

definition act :: "action \<Rightarrow> ('a shared_scheme) \<Rightarrow> ('a shared_scheme)" where
  "act a s = s\<lparr>trace := trace s @ [a]\<rparr>"

subsection \<open>The retrying control-channel sender\<close>

text \<open>
  \<open>_retry_control_message(command, num_retry)\<close>: the loop \<open>for retry in range(1, num_retry + 1)\<close>
  is \<open>retry_loop\<close>, started at \<open>retry = 1\<close>. A send that returns leaves the loop (\<open>break\<close>);
  one that raises is logged and, at \<open>retry = num_retry\<close>, raised again.
\<close>

function retry_loop :: "world \<Rightarrow> string \<Rightarrow> int \<Rightarrow> int \<Rightarrow> pea \<Rightarrow> exn option \<times> pea" where
  "retry_loop w command num_retry retry p =
     (if num_retry < retry then (None, p)
      else
        let p1 = log DEBUG (SendingCommand command retry) p;
            p2 = (act (SendCtrlMessage command) p1)\<lparr>n_sends := Suc (n_sends p1)\<rparr>
        in case send_ctrl_message w (n_sends p1) command of
             None \<Rightarrow> (None, p2)
           | Some ex \<Rightarrow>
               let p3 = log WARNING (Repr ex) p2
               in if retry = num_retry then (Some ex, p3)
                  else retry_loop w command num_retry (retry + 1) p3)"
  by pat_completeness auto
termination
  by (relation "measure (\<lambda>(w, command, num_retry, retry, p). nat (num_retry + 1 - retry))") auto

definition retry_control_message :: "world \<Rightarrow> string \<Rightarrow> int \<Rightarrow> pea \<Rightarrow> exn option \<times> pea" where
  "retry_control_message w command num_retry p = retry_loop w command num_retry 1 p"


declare retry_loop.simps [simp del]

subsection \<open>Control commands of the supervisor\<close>

definition is_dealer :: "pea \<Rightarrow> bool" where
  "is_dealer p = (socket_in (self_args p) = DEALER_CONNECT)"

definition activate_runtime :: "world \<Rightarrow> pea \<Rightarrow> exn option \<times> pea" where
  "activate_runtime w p =
     (if is_dealer p then retry_control_message w ''ACTIVATE'' 3 p else (None, p))"

definition deactivate_runtime :: "world \<Rightarrow> pea \<Rightarrow> exn option \<times> pea" where
  "deactivate_runtime w p =
     (if is_dealer p then retry_control_message w ''DEACTIVATE'' 3 p else (None, p))"

definition cancel_runtime :: "world \<Rightarrow> pea \<Rightarrow> exn option \<times> pea" where
  "cancel_runtime w p =
     (if self_runtime_cls p = ''ZEDRuntime'' \<or> self_runtime_cls p = ''ContainerRuntime''
      then retry_control_message w ''TERMINATE'' 3 p
      else (None, (act SetCancelEvent p)\<lparr>cancel_event := True\<rparr>))"

text \<open>
  \<open>terminate\<close> calls \<open>self.worker.terminate()\<close> only if the worker has such a method:
  a \<open>multiprocessing.Process\<close> has, a \<open>threading.Thread\<close> has not. The call may raise.
\<close>

definition terminate :: "world \<Rightarrow> pea \<Rightarrow> exn option \<times> pea" where
  "terminate w p =
     (if runtime_backend (self_args p) = PROCESS
      then (terminate_raises w, act WorkerTerminate p)
      else (None, p))"

text \<open>\<open>join\<close> returns once the worker has finished; \<open>None\<close> stands for a call that blocks for ever.\<close>

definition join :: "world \<Rightarrow> pea \<Rightarrow> pea option" where
  "join w p = (if worker_exits w then Some (act WorkerJoin p) else None)"

subsection \<open>Waiting\<close>

text \<open>
  The ready-timeout: \<open>None\<close> (wait without limit) when \<open>timeout_ready\<close> is not positive. The
  source divides by \<open>1e3\<close> to get seconds; the model keeps the milliseconds.
\<close>

definition ready_timeout :: "pea \<Rightarrow> int option" where
  "ready_timeout p =
     (if timeout_ready (self_args p) \<le> 0 then None else Some (timeout_ready (self_args p)))"

text \<open>The result of a wait: the value returned, an exception, or no return at all.\<close>

datatype waited = Waited bool | WaitRaised exn | WaitsForEver

text \<open>
  \<open>self.ready_or_shutdown.event.wait(_timeout)\<close>, with the conversion of the timeout
  before it. A wait without timeout on an event that never fires does not return. The
  events the worker has set by then are added to the ones the supervisor has seen.
\<close>

definition wait_ready_or_shutdown :: "world \<Rightarrow> int option \<Rightarrow> pea \<Rightarrow> waited \<times> pea" where
  "wait_ready_or_shutdown w timeout p =
     (let ob = ready_or_shutdown_wait w (n_ready_waits p);
          p1 = (act (WaitReadyOrShutdown timeout) p)
                 \<lparr>is_started := is_started p \<or> sees_started ob,
                  is_shutdown := is_shutdown p \<or> sees_shutdown ob,
                  is_ready := is_ready p \<or> sees_ready ob,
                  n_ready_waits := Suc (n_ready_waits p)\<rparr>
      in if fired ob then (Waited True, p1)
         else (case ready_or_shutdown_wait_raises w (n_ready_waits p) of
                 Some ex \<Rightarrow> (WaitRaised ex, p1)
               | None \<Rightarrow> if timeout = None then (WaitsForEver, p1) else (Waited False, p1)))"

text \<open>
  \<open>self.is_shutdown.wait(timeout=self._timeout_ctrl)\<close>: true at once if the event is set;
  \<open>Inr b\<close> is the value returned, \<open>Inl ex\<close> an exception.
\<close>

definition wait_shutdown :: "world \<Rightarrow> pea \<Rightarrow> (exn + bool) \<times> pea" where
  "wait_shutdown w p =
     (let p1 = (act (WaitShutdown (self_timeout_ctrl p)) p)
                 \<lparr>n_shutdown_waits := Suc (n_shutdown_waits p)\<rparr>
      in if is_shutdown p \<or> shutdown_wait w (n_shutdown_waits p)
         then (Inr True, p1\<lparr>is_shutdown := True\<rparr>)
         else (case shutdown_wait_raises w (n_shutdown_waits p) of
                 Some ex \<Rightarrow> (Inl ex, p1)
               | None \<Rightarrow> (Inr False, p1)))"

subsection \<open>\<open>close\<close>\<close>

text \<open>
  The three statements that both handshakes of \<open>close\<close> end with: wait for Shutdown and, if
  it does not come, terminate, sleep and raise.
\<close>

definition await_shutdown :: "world \<Rightarrow> pea \<Rightarrow> exn option \<times> pea" where
  "await_shutdown w p =
     (case wait_shutdown w p of
        (Inl ex, p1) \<Rightarrow> (Some ex, p1)
      | (Inr True, p1) \<Rightarrow> (None, p1)
      | (Inr False, p1) \<Rightarrow>
          (case terminate w p1 of
             (Some ex, p2) \<Rightarrow> (Some ex, p2)
           | (None, p2) \<Rightarrow> (Some (ShutdownNotReceived (self_timeout_ctrl p)), act Sleep p2)))"

text \<open>The body of the \<open>try\<close> of the first branch.\<close>

definition close_try :: "world \<Rightarrow> pea \<Rightarrow> exn option \<times> pea" where
  "close_try w p =
     (case deactivate_runtime w p of
        (Some ex, p1) \<Rightarrow> (Some ex, p1)
      | (None, p1) \<Rightarrow>
          (case cancel_runtime w p1 of
             (Some ex, p2) \<Rightarrow> (Some ex, p2)
           | (None, p2) \<Rightarrow> await_shutdown w p2))"

text \<open>The two statements after the \<open>if\<close>: the stop message and \<open>self.logger.close()\<close>.\<close>

definition close_end :: "pea \<Rightarrow> outcome \<times> pea" where
  "close_end p = (Returned, (act LoggerClose (log DEBUG StopMsg p))\<lparr>logger_closed := True\<rparr>)"

definition close :: "world \<Rightarrow> pea \<Rightarrow> outcome \<times> pea" where
  "close w p =
     (let p0 = log DEBUG WaitingForReadyOrShutdown p in
      if is_ready p0 \<and> \<not> is_shutdown p0 then
        (case close_try w p0 of (r, p1) \<Rightarrow>
           let p2 = (case r of
                       None \<Rightarrow> p1
                     | Some ex \<Rightarrow>
                         log ERROR (if quiet_error (self_args p1) then EmptyMessage
                                    else DuringClose ex) p1)
           in if \<not> daemon (self_args p2)
              then (case join w p2 of None \<Rightarrow> (Blocked, p2) | Some p3 \<Rightarrow> close_end p3)
              else close_end p2)
      else if is_shutdown p0 then close_end p0
      else
        (let p1 = log WARNING ClosedBeforeReady p0;
             timeout = ready_timeout p1;
             p2 = log DEBUG WaitingForReadyOrShutdown p1
         in case wait_ready_or_shutdown w timeout p2 of
              (WaitsForEver, p3) \<Rightarrow> (Blocked, p3)
            | (WaitRaised ex, p3) \<Rightarrow> (Raised ex, p3)
            | (Waited True, p3) \<Rightarrow>
                if is_ready p3 then
                  (case cancel_runtime w p3 of
                     (Some ex, p4) \<Rightarrow> (Raised ex, p4)
                   | (None, p4) \<Rightarrow>
                       (case await_shutdown w p4 of
                          (Some ex, p5) \<Rightarrow> (Raised ex, p5)
                        | (None, p5) \<Rightarrow> close_end p5))
                else close_end p3
            | (Waited False, p3) \<Rightarrow>
                (case terminate w (log WARNING TerminatingAfterWaiting p3) of
                   (Some ex, p4) \<Rightarrow> (Raised ex, p4)
                 | (None, p4) \<Rightarrow> close_end (act Sleep p4))))"

subsection \<open>\<open>wait_start_success\<close>\<close>

text \<open>
  In the last branch \<open>_timeout or -1\<close> and \<open>_timeout * 1e3\<close> give the milliseconds back,
  and \<open>-1000\<close> if there was no timeout.
\<close>

definition wait_start_success :: "world \<Rightarrow> pea \<Rightarrow> outcome \<times> pea" where
  "wait_start_success w p =
     (let timeout = ready_timeout p;
          p1 = log DEBUG WaitingForReadyOrShutdown p
      in case wait_ready_or_shutdown w timeout p1 of
           (WaitsForEver, p2) \<Rightarrow> (Blocked, p2)
         | (WaitRaised ex, p2) \<Rightarrow> (Raised ex, p2)
         | (Waited True, p2) \<Rightarrow>
             if is_shutdown p2 then
               (if \<not> is_started p2 then (Raised RuntimeFailToStart, p2)
                else (Raised RuntimeRunForeverEarlyError, p2))
             else (Returned, log SUCCESS ReadyMsg p2)
         | (Waited False, p2) \<Rightarrow>
             (let p3 = log WARNING (TimeoutAfterWaiting (timeout_ready (self_args p2))) p2
              in case close w p3 of
                   (Returned, p4) \<Rightarrow>
                     (Raised (TimeoutError (case timeout of None \<Rightarrow> - 1000 | Some t \<Rightarrow> t)), p4)
                 | (r, p4) \<Rightarrow> (r, p4)))"


subsection \<open>The environment overlay built by \<open>__init__\<close>\<close>

text \<open>
  \<open>self.name = self.args.name or self.__class__.__name__\<close>, then the dictionary
  \<open>self._envs\<close>; \<open>dict.update\<close> sets the keys of its argument from left to right.
\<close>

definition self_name :: "args \<Rightarrow> string" where
  "self_name a = (if name a = [] then ''BasePea'' else name a)"

definition truthy :: "(string \<times> string) list option \<Rightarrow> bool" where
  "truthy d = (case d of None \<Rightarrow> False | Some kvs \<Rightarrow> kvs \<noteq> [])"

definition dict_update :: "(string \<times> string) list \<Rightarrow> (string \<times> string) list \<Rightarrow> (string \<times> string) list" where
  "dict_update d other = fold (\<lambda>(k, v). AList.update k v) other d"

definition init_envs :: "args \<Rightarrow> (string \<times> string) list" where
  "init_envs a =
     (let e0 = [(''JINA_POD_NAME'', self_name a), (''JINA_LOG_ID'', identity a)];
          e1 = (if quiet a then AList.update ''JINA_LOG_CONFIG'' ''QUIET'' e0 else e0)
      in if truthy (env a) then dict_update e1 (the (env a)) else e1)"

subsection \<open>The entry point \<open>run\<close>\<close>

text \<open>
  What a Runtime class does: a call returns, raises, or never returns. \<open>exit_with\<close> is
  \<open>__exit__\<close>, given the exception of the body if there is one: it returns a value that
  is true or false, or raises.
\<close>

datatype call = Returns | Raises exn | NeverReturns

datatype exit_result = ExitReturns bool | ExitRaises exn

record runtime =
  construct :: call
  enter :: call
  run_forever :: call
  exit_with :: "exn option \<Rightarrow> exit_result"

text \<open>
  The worker's side: the events, the trace, and its process: the environment (the one
  \<open>putenv\<close> and \<open>unsetenv\<close> act on) and what the operating system refuses.
  \<open>putenv_raises k v\<close> is what \<open>os.environ[k] = v\<close> raises, if anything, and
  \<open>unsetenv_raises k\<close> what \<open>os.unsetenv(k)\<close> raises: both calls fail on an empty name and
  on a name with an equals sign.
\<close>

record worker = shared +
  environ :: "string \<rightharpoonup> string"
  putenv_raises :: "string \<Rightarrow> string \<Rightarrow> exn option"
  unsetenv_raises :: "string \<Rightarrow> exn option"

text \<open>
  \<open>os.environ.update(d)\<close> sets the keys of \<open>d\<close> one after the other and stops at the first
  that is refused.
\<close>

fun update_environ :: "(string \<times> string) list \<Rightarrow> worker \<Rightarrow> exn option \<times> worker" where
  "update_environ [] s = (None, s)"
| "update_environ ((k, v) # kvs) s =
     (case putenv_raises s k v of
        Some ex \<Rightarrow> (Some ex, s)
      | None \<Rightarrow> update_environ kvs (s\<lparr>environ := (environ s)(k \<mapsto> v)\<rparr>))"

definition set_envs :: "args \<Rightarrow> (string \<times> string) list \<Rightarrow> worker \<Rightarrow> exn option \<times> worker" where
  "set_envs a envs s =
     (if truthy (env a) then
        (if runtime_backend a = THREAD then (None, log WARNING EnvsWithThread s)
         else update_environ envs (act (EnvironUpdate envs) s))
      else (None, s))"

text \<open>The loop \<open>for k in envs.keys(): os.unsetenv(k)\<close> stops at the first key that is refused.\<close>

fun unsetenv_each :: "string list \<Rightarrow> worker \<Rightarrow> exn option \<times> worker" where
  "unsetenv_each [] s = (None, s)"
| "unsetenv_each (k # ks) s =
     (case unsetenv_raises s k of
        Some ex \<Rightarrow> (Some ex, act (Unsetenv k) s)
      | None \<Rightarrow> unsetenv_each ks ((act (Unsetenv k) s)\<lparr>environ := (environ s)(k := None)\<rparr>))"

definition unset_envs :: "args \<Rightarrow> (string \<times> string) list \<Rightarrow> worker \<Rightarrow> exn option \<times> worker" where
  "unset_envs a envs s =
     (if envs \<noteq> [] \<and> runtime_backend a \<noteq> THREAD then unsetenv_each (map fst envs) s
      else (None, s))"

text \<open>
  \<open>with runtime: runtime.run_forever()\<close>. If \<open>__enter__\<close> raises, \<open>__exit__\<close> is not called.
  If the body raises, \<open>__exit__\<close> gets the exception and a true result suppresses it.
\<close>

definition with_runtime :: "runtime \<Rightarrow> worker \<Rightarrow> outcome \<times> worker" where
  "with_runtime rt s =
     (let s1 = act Enter s in
      case enter rt of
        NeverReturns \<Rightarrow> (Blocked, s1)
      | Raises ex \<Rightarrow> (Raised ex, s1)
      | Returns \<Rightarrow>
         (let s2 = act RunForever s1 in
          case run_forever rt of
            NeverReturns \<Rightarrow> (Blocked, s2)
          | Returns \<Rightarrow>
              (case exit_with rt None of
                 ExitRaises e \<Rightarrow> (Raised e, act (Exit None) s2)
               | ExitReturns b \<Rightarrow> (Returned, act (Exit None) s2))
          | Raises ex \<Rightarrow>
              (case exit_with rt (Some ex) of
                 ExitRaises e \<Rightarrow> (Raised e, act (Exit (Some ex)) s2)
               | ExitReturns b \<Rightarrow>
                   (if b then Returned else Raised ex, act (Exit (Some ex)) s2))))"

text \<open>
  The \<open>finally\<close> clause, entered with the outcome \<open>r\<close> of what came before. If unsetting
  the variables raises, that exception leaves \<open>run\<close> and \<open>is_shutdown.set()\<close> is not reached.
\<close>

definition run_finally ::
  "args \<Rightarrow> (string \<times> string) list \<Rightarrow> outcome \<Rightarrow> worker \<Rightarrow> outcome \<times> worker" where
  "run_finally a envs r s =
     (case unset_envs a envs s of
        (Some ex, s1) \<Rightarrow> (Raised ex, s1)
      | (None, s1) \<Rightarrow> (r, (act SetShutdown s1)\<lparr>is_shutdown := True\<rparr>))"

text \<open>The \<open>except\<close> clause: the error is logged, with the exception unless \<open>quiet_error\<close> is set.\<close>

definition run_except :: "args \<Rightarrow> exn \<Rightarrow> worker \<Rightarrow> worker" where
  "run_except a ex s =
     log ERROR (if quiet_error a then EmptyMessage else DuringInitialization ex) s"

text \<open>
  \<open>run(args, name, runtime_cls, envs, ...)\<close>. The \<open>try\<close> holds \<open>_set_envs()\<close> and the
  constructor; if \<open>_set_envs()\<close> raises, the constructor is not called. The \<open>else\<close> clause
  of a \<open>try\<close> is not covered by its \<open>except\<close>: what \<open>with_runtime\<close> raises goes through
  \<open>finally\<close> and out of \<open>run\<close>. A call that never returns never reaches \<open>finally\<close>.
\<close>

definition run :: "args \<Rightarrow> runtime \<Rightarrow> (string \<times> string) list \<Rightarrow> worker \<Rightarrow> outcome \<times> worker" where
  "run a rt envs s =
     (case set_envs a envs s of
        (Some ex, s0) \<Rightarrow> run_finally a envs Returned (run_except a ex s0)
      | (None, s0) \<Rightarrow>
         (let s1 = act Construct s0 in
          case construct rt of
            NeverReturns \<Rightarrow> (Blocked, s1)
          | Raises ex \<Rightarrow> run_finally a envs Returned (run_except a ex s1)
          | Returns \<Rightarrow>
              (case with_runtime rt ((act SetStarted s1)\<lparr>is_started := True\<rparr>) of
                 (Blocked, s2) \<Rightarrow> (Blocked, s2)
               | (r, s2) \<Rightarrow> run_finally a envs r s2)))"

subsection \<open>The Runtime selection of \<open>_get_runtime_cls\<close>\<close>

definition gateway_runtime_dict :: "GatewayProtocolType \<Rightarrow> string" where
  "gateway_runtime_dict pr =
     (case pr of GRPC \<Rightarrow> ''GRPCRuntime'' | WEBSOCKET \<Rightarrow> ''WebSocketRuntime'' | HTTP \<Rightarrow> ''HTTPRuntime'')"

definition gateway_runtime_values :: "string list" where
  "gateway_runtime_values = [''GRPCRuntime'', ''WebSocketRuntime'', ''HTTPRuntime'']"

text \<open>
  The collaborators are parameters: the constant \<open>__default_host__\<close>, \<open>is_valid_huburi\<close>,
  the pull of \<open>HubIO\<close> (from the old \<open>uses\<close> to the new one, or an exception) and
  \<open>get_runtime\<close>, from the name of a class to the class. The result is the class and
  \<open>self.args\<close> as the method leaves it, or the exception that ends the method.
  \<open>self.args.uses.startswith\<close> raises \<open>AttributeError\<close> when \<open>uses\<close> is \<open>None\<close>; it is
  evaluated only when the class is \<open>ZEDRuntime\<close>. The four \<open>if\<close> statements of the method
  are the four rules, in the order of the source.
\<close>

definition remote_rule :: "string \<Rightarrow> args \<Rightarrow> args" where
  "remote_rule default_host a =
     (if runtime_cls a \<notin> set gateway_runtime_values \<and> host a \<noteq> default_host
         \<and> \<not> disable_remote a
      then a\<lparr>runtime_cls := ''JinadRuntime'', timeout_ready := - 1\<rparr> else a)"

definition container_rule :: "args \<Rightarrow> exn + args" where
  "container_rule a =
     (if runtime_cls a = ''ZEDRuntime'' then
        (case uses a of
           None \<Rightarrow> Inl AttributeError
         | Some u \<Rightarrow>
             Inr (if prefix ''docker://'' u then a\<lparr>runtime_cls := ''ContainerRuntime''\<rparr> else a))
      else Inr a)"

definition hub_rule ::
  "(string option \<Rightarrow> bool) \<Rightarrow> (string option \<Rightarrow> exn + string option) \<Rightarrow> args \<Rightarrow> exn + args" where
  "hub_rule is_valid_huburi pull a =
     (if runtime_cls a = ''ZEDRuntime'' \<and> is_valid_huburi (uses a) then
        (case pull (uses a) of
           Inl ex \<Rightarrow> Inl ex
         | Inr None \<Rightarrow> Inl AttributeError
         | Inr (Some u) \<Rightarrow>
             Inr (if prefix ''docker://'' u
                  then a\<lparr>uses := Some u, runtime_cls := ''ContainerRuntime''\<rparr>
                  else a\<lparr>uses := Some u\<rparr>))
      else Inr a)"

definition protocol_rule :: "args \<Rightarrow> args" where
  "protocol_rule a =
     (case protocol a of
        Some pr \<Rightarrow> a\<lparr>runtime_cls := gateway_runtime_dict pr\<rparr>
      | None \<Rightarrow> a)"

definition get_runtime_cls ::
  "string \<Rightarrow> (string option \<Rightarrow> bool) \<Rightarrow> (string option \<Rightarrow> exn + string option)
     \<Rightarrow> (string \<Rightarrow> 'c) \<Rightarrow> args \<Rightarrow> exn + 'c \<times> args" where
  "get_runtime_cls default_host is_valid_huburi pull get_runtime a =
     (case container_rule (remote_rule default_host a) of
        Inl ex \<Rightarrow> Inl ex
      | Inr a2 \<Rightarrow>
          (case hub_rule is_valid_huburi pull a2 of
             Inl ex \<Rightarrow> Inl ex
           | Inr a3 \<Rightarrow>
               (let a4 = protocol_rule a3 in Inr (get_runtime (runtime_cls a4), a4))))"


subsection \<open>Concrete configurations\<close>

text \<open>
  A process-backed Pea with the dealer role, not a daemon, whose Runtime listens to
  control messages; \<open>ready_pea\<close> is that Pea once Started and Ready are set.
\<close>

definition example_args :: args where
  "example_args =
     \<lparr>name = ''pea'', identity = ''id0'', quiet = False, quiet_error = False, env = None,
      runtime_backend = PROCESS, runtime_cls = ''ZEDRuntime'', host = ''0.0.0.0'',
      disable_remote = False, uses = Some ''docker://image'', protocol = Some HTTP,
      timeout_ready = 50, timeout_ctrl = 5000, daemon = False, socket_in = DEALER_CONNECT\<rparr>"

definition example_pea :: pea where
  "example_pea =
     \<lparr>is_started = False, is_shutdown = False, is_ready = False, cancel_event = False,
      trace = [], self_args = example_args, self_runtime_cls = ''ZEDRuntime'',
      self_timeout_ctrl = 5000, n_sends = 0, n_ready_waits = 0, n_shutdown_waits = 0,
      logger_closed = False\<rparr>"

definition ready_pea :: pea where
  "ready_pea = example_pea\<lparr>is_started := True, is_ready := True\<rparr>"

text \<open>
  Worlds: a channel on which every send fails, the k-th with \<open>Failure k\<close>; one on which
  only the second send is acknowledged; one on which every send is acknowledged. The
  first argument says whether the ready-or-shutdown wait fires and Ready is seen, the
  second whether Shutdown arrives within the control timeout. No wait raises and the
  worker, once started, can be terminated.
\<close>

definition failing_world :: "bool \<Rightarrow> bool \<Rightarrow> world" where
  "failing_world rdy shut =
     \<lparr>send_ctrl_message = (\<lambda>k c. Some (Failure k)),
      ready_or_shutdown_wait =
        (\<lambda>k. \<lparr>fired = rdy, sees_started = rdy, sees_shutdown = False, sees_ready = rdy\<rparr>),
      shutdown_wait = (\<lambda>k. shut), worker_exits = True,
      ready_or_shutdown_wait_raises = (\<lambda>k. None), shutdown_wait_raises = (\<lambda>k. None),
      terminate_raises = None\<rparr>"

definition second_try_world :: "bool \<Rightarrow> bool \<Rightarrow> world" where
  "second_try_world rdy shut =
     (failing_world rdy shut)
       \<lparr>send_ctrl_message := (\<lambda>k c. if k = 1 then None else Some (Failure k))\<rparr>"

definition obliging_world :: "bool \<Rightarrow> bool \<Rightarrow> world" where
  "obliging_world rdy shut =
     (failing_world rdy shut)\<lparr>send_ctrl_message := (\<lambda>k c. None)\<rparr>"

text \<open>
  A worker that has signalled nothing yet, in a process whose environment holds
  \<open>HOME\<close> and an old \<open>JINA_LOG_ID\<close> and whose operating system refuses an empty name and
  a name with an equals sign, and four Runtime classes: one that runs and stops, one
  whose constructor raises, one whose \<open>run_forever\<close> raises while \<open>__exit__\<close> lets the
  exception through, and one whose \<open>__enter__\<close> raises.
\<close>

definition fresh_worker :: worker where
  "fresh_worker =
     \<lparr>is_started = False, is_shutdown = False, is_ready = False, cancel_event = False,
      trace = [], environ = [''HOME'' \<mapsto> ''/root'', ''JINA_LOG_ID'' \<mapsto> ''old''],
      putenv_raises = (\<lambda>k v. if k = [] \<or> CHR ''='' \<in> set k then Some (OSError 22) else None),
      unsetenv_raises = (\<lambda>k. if k = [] \<or> CHR ''='' \<in> set k then Some (OSError 22) else None)\<rparr>"

definition good_runtime :: runtime where
  "good_runtime =
     \<lparr>construct = Returns, enter = Returns, run_forever = Returns,
      exit_with = (\<lambda>e. ExitReturns False)\<rparr>"

definition unbuildable_runtime :: runtime where
  "unbuildable_runtime = good_runtime\<lparr>construct := Raises (Failure 7)\<rparr>"

definition crashing_runtime :: runtime where
  "crashing_runtime = good_runtime\<lparr>run_forever := Raises (Failure 8)\<rparr>"

definition unenterable_runtime :: runtime where
  "unenterable_runtime = good_runtime\<lparr>enter := Raises (Failure 9)\<rparr>"

definition user_args :: args where
  "user_args = example_args\<lparr>env := Some [(''MY_VAR'', ''1'')]\<rparr>"

text \<open>The user has given a variable with an empty name: \<open>env = {'': 'x'}\<close>.\<close>

definition nameless_args :: args where
  "nameless_args = example_args\<lparr>env := Some [([], ''x'')]\<rparr>"

text \<open>A gateway protocol together with the class \<open>ZEDRuntime\<close> and a \<open>uses\<close> of the hub.\<close>

definition hub_args :: args where
  "hub_args = example_args\<lparr>uses := Some ''jinahub://executor''\<rparr>"

text \<open>What the trace of \<open>run\<close> can hold between the constructor and the \<open>finally\<close> clause.\<close>

definition runtime_actions :: "action set" where
  "runtime_actions = {SetStarted, Enter, RunForever} \<union> range Exit \<union> range (Log ERROR)"

text \<open>
  The world a supervisor meets once the worker has come to the state \<open>s\<close>: the
  ready-or-shutdown event has fired if Ready or Shutdown is set.
\<close>

definition world_after :: "worker \<Rightarrow> world" where
  "world_after s =
     \<lparr>send_ctrl_message = (\<lambda>k c. None),
      ready_or_shutdown_wait =
        (\<lambda>k. \<lparr>fired = (is_ready s \<or> is_shutdown s), sees_started = is_started s,
              sees_shutdown = is_shutdown s, sees_ready = is_ready s\<rparr>),
      shutdown_wait = (\<lambda>k. is_shutdown s), worker_exits = True,
      ready_or_shutdown_wait_raises = (\<lambda>k. None), shutdown_wait_raises = (\<lambda>k. None),
      terminate_raises = None\<rparr>"

subsection \<open>Frame of the control commands\<close>

text \<open>
  \<open>same_but_channel p p'\<close>: from \<open>p\<close> to \<open>p'\<close> nothing has changed but the trace, the
  number of sends and the Cancel event.
\<close>

definition same_but_channel :: "pea \<Rightarrow> pea \<Rightarrow> bool" where
  "same_but_channel p p' \<longleftrightarrow>
     is_started p' = is_started p \<and> is_shutdown p' = is_shutdown p \<and> is_ready p' = is_ready p \<and>
     self_args p' = self_args p \<and> self_runtime_cls p' = self_runtime_cls p \<and>
     self_timeout_ctrl p' = self_timeout_ctrl p \<and> n_ready_waits p' = n_ready_waits p \<and>
     n_shutdown_waits p' = n_shutdown_waits p \<and> logger_closed p' = logger_closed p"


section \<open>Properties\<close>

subsection \<open>Bookkeeping\<close>


lemma n_sends_log [simp]: "n_sends (log l m p) = n_sends p"
  by (simp add: log_def)

lemma trace_log [simp]: "trace (log l m p) = trace p @ [Log l m]"
  by (simp add: log_def)

lemma trace_act [simp]: "trace (act a p) = trace p @ [a]"
  by (simp add: act_def)

lemma n_sends_act [simp]: "n_sends (act a p) = n_sends p"
  by (simp add: act_def)

lemma retry_loop_done: "num_retry < retry \<Longrightarrow> retry_loop w command num_retry retry p = (None, p)"
  by (simp add: retry_loop.simps)

lemma retry_loop_success:
  "retry \<le> num_retry \<Longrightarrow> send_ctrl_message w (n_sends p) command = None \<Longrightarrow>
   retry_loop w command num_retry retry p =
     (None, (act (SendCtrlMessage command) (log DEBUG (SendingCommand command retry) p))
              \<lparr>n_sends := Suc (n_sends p)\<rparr>)"
  by (simp add: retry_loop.simps[of w command num_retry retry p] Let_def)

lemma retry_loop_last:
  "send_ctrl_message w (n_sends p) command = Some ex \<Longrightarrow>
   retry_loop w command num_retry num_retry p =
     (Some ex, log WARNING (Repr ex)
        ((act (SendCtrlMessage command) (log DEBUG (SendingCommand command num_retry) p))
              \<lparr>n_sends := Suc (n_sends p)\<rparr>))"
  by (simp add: retry_loop.simps[of w command num_retry num_retry p] Let_def)

lemma retry_loop_again:
  "retry < num_retry \<Longrightarrow> send_ctrl_message w (n_sends p) command = Some ex \<Longrightarrow>
   retry_loop w command num_retry retry p =
     retry_loop w command num_retry (retry + 1) (log WARNING (Repr ex)
        ((act (SendCtrlMessage command) (log DEBUG (SendingCommand command retry) p))
              \<lparr>n_sends := Suc (n_sends p)\<rparr>))"
  by (simp add: retry_loop.simps[of w command num_retry retry p] Let_def)

lemma retry_loop_cases:
  fixes num_retry retry :: int
  obtains (exhausted) "num_retry < retry"
  | (success) "retry \<le> num_retry" "send_ctrl_message w (n_sends p) command = None"
  | (final) ex where "retry = num_retry" "send_ctrl_message w (n_sends p) command = Some ex"
  | (again) ex where "retry < num_retry" "send_ctrl_message w (n_sends p) command = Some ex"
  by (cases "send_ctrl_message w (n_sends p) command"; cases "num_retry < retry"; cases "retry = num_retry") auto



lemma retry_loop_trace:
  "retry_loop w command num_retry retry p = (r, p') \<Longrightarrow>
   \<exists>new. trace p' = trace p @ new \<and>
         set new \<subseteq> range (Log DEBUG) \<union> range (Log WARNING) \<union> {SendCtrlMessage command} \<and>
         n_sends p' = n_sends p + length (filter (\<lambda>a. a = SendCtrlMessage command) new) \<and>
         int (length (filter (\<lambda>a. a = SendCtrlMessage command) new)) \<le> max 0 (num_retry + 1 - retry)"
proof (induction w command num_retry retry p rule: retry_loop.induct)
  case (1 w command num_retry retry p)
  show ?case
  proof (cases rule: retry_loop_cases[where num_retry=num_retry and retry=retry and w=w and p=p and command=command])
    case exhausted
    with "1.prems" show ?thesis by (simp add: retry_loop_done)
  next
    case success
    with "1.prems" show ?thesis by (auto simp add: retry_loop_success)
  next
    case (final ex)
    with "1.prems" show ?thesis by (auto simp add: retry_loop_last)
  next
    case (again ex)
    let ?q = "log WARNING (Repr ex)
        ((act (SendCtrlMessage command) (log DEBUG (SendingCommand command retry) p))
              \<lparr>n_sends := Suc (n_sends p)\<rparr>)"
    from again "1.prems" have "retry_loop w command num_retry (retry + 1) ?q = (r, p')"
      by (simp add: retry_loop_again)
    with again obtain new where new: "trace p' = trace ?q @ new"
         "set new \<subseteq> range (Log DEBUG) \<union> range (Log WARNING) \<union> {SendCtrlMessage command}"
         "n_sends p' = n_sends ?q + length (filter (\<lambda>a. a = SendCtrlMessage command) new)"
         "int (length (filter (\<lambda>a. a = SendCtrlMessage command) new)) \<le> max 0 (num_retry + 1 - (retry + 1))"
      using "1.IH"[OF _ refl refl _ refl, of ex] by auto
    let ?new = "[Log DEBUG (SendingCommand command retry), SendCtrlMessage command, Log WARNING (Repr ex)] @ new"
    have "trace p' = trace p @ ?new" using new(1) by simp
    moreover have "set ?new \<subseteq> range (Log DEBUG) \<union> range (Log WARNING) \<union> {SendCtrlMessage command}"
      using new(2) by auto
    moreover have "n_sends p' = n_sends p + length (filter (\<lambda>a. a = SendCtrlMessage command) ?new)"
      using new(3) by simp
    moreover have "int (length (filter (\<lambda>a. a = SendCtrlMessage command) ?new)) \<le> max 0 (num_retry + 1 - retry)"
      using new(4) again(1) by simp
    ultimately show ?thesis by blast
  qed
qed

lemma retry_loop_all_fail:
  "retry \<le> num_retry \<Longrightarrow>
   \<forall>j < nat (num_retry + 1 - retry). send_ctrl_message w (n_sends p + j) command \<noteq> None \<Longrightarrow>
   retry_loop w command num_retry retry p = (r, p') \<Longrightarrow>
   r = send_ctrl_message w (n_sends p + nat (num_retry - retry)) command \<and>
   n_sends p' = n_sends p + nat (num_retry + 1 - retry)"
proof (induction w command num_retry retry p rule: retry_loop.induct)
  case (1 w command num_retry retry p)
  from "1.prems"(1) have pos: "0 < nat (num_retry + 1 - retry)" by simp
  with "1.prems"(2) have first: "send_ctrl_message w (n_sends p + 0) command \<noteq> None" by blast
  show ?case
  proof (cases rule: retry_loop_cases[where num_retry=num_retry and retry=retry and w=w and p=p and command=command])
    case exhausted
    with "1.prems" show ?thesis by simp
  next
    case success
    with first show ?thesis by simp
  next
    case (final ex)
    with "1.prems" show ?thesis by (auto simp add: retry_loop_last)
  next
    case (again ex)
    let ?q = "log WARNING (Repr ex)
        ((act (SendCtrlMessage command) (log DEBUG (SendingCommand command retry) p))
              \<lparr>n_sends := Suc (n_sends p)\<rparr>)"
    from again "1.prems" have run: "retry_loop w command num_retry (retry + 1) ?q = (r, p')"
      by (simp add: retry_loop_again)
    have rest: "\<forall>j < nat (num_retry + 1 - (retry + 1)). send_ctrl_message w (n_sends ?q + j) command \<noteq> None"
    proof (intro allI impI)
      fix j assume "j < nat (num_retry + 1 - (retry + 1))"
      then have "Suc j < nat (num_retry + 1 - retry)" by linarith
      with "1.prems"(2) have "send_ctrl_message w (n_sends p + Suc j) command \<noteq> None" by blast
      then show "send_ctrl_message w (n_sends ?q + j) command \<noteq> None" by simp
    qed
    have "r = send_ctrl_message w (n_sends ?q + nat (num_retry - (retry + 1))) command \<and>
          n_sends p' = n_sends ?q + nat (num_retry + 1 - (retry + 1))"
      using "1.IH"[OF _ refl refl _ refl, of ex] again rest run by simp
    moreover have "Suc (nat (num_retry - (retry + 1))) = nat (num_retry - retry)"
      using again(1) by linarith
    moreover have "Suc (nat (num_retry + 1 - (retry + 1))) = nat (num_retry + 1 - retry)"
      using again(1) by linarith
    ultimately show ?thesis by (simp del: One_nat_def) (metis add_Suc_right)
  qed
qed

lemma retry_loop_first_success:
  "int k < num_retry + 1 - retry \<Longrightarrow>
   \<forall>j < k. send_ctrl_message w (n_sends p + j) command \<noteq> None \<Longrightarrow>
   send_ctrl_message w (n_sends p + k) command = None \<Longrightarrow>
   retry_loop w command num_retry retry p = (r, p') \<Longrightarrow>
   r = None \<and> n_sends p' = n_sends p + k + 1"
proof (induction k arbitrary: retry p)
  case 0
  then show ?case by (auto simp add: retry_loop_success)
next
  case (Suc k)
  from Suc.prems(2) have "send_ctrl_message w (n_sends p + 0) command \<noteq> None" by blast
  then obtain ex where ex: "send_ctrl_message w (n_sends p) command = Some ex" by auto
  let ?q = "log WARNING (Repr ex)
        ((act (SendCtrlMessage command) (log DEBUG (SendingCommand command retry) p))
              \<lparr>n_sends := Suc (n_sends p)\<rparr>)"
  from Suc.prems(1) have lt: "retry < num_retry" by linarith
  with ex Suc.prems(4) have run: "retry_loop w command num_retry (retry + 1) ?q = (r, p')"
    by (simp add: retry_loop_again)
  have "r = None \<and> n_sends p' = n_sends ?q + k + 1"
  proof (rule Suc.IH[OF _ _ _ run])
    show "int k < num_retry + 1 - (retry + 1)" using Suc.prems(1) by linarith
    show "\<forall>j<k. send_ctrl_message w (n_sends ?q + j) command \<noteq> None"
    proof (intro allI impI)
      fix j assume "j < k"
      then have "Suc j < Suc k" by simp
      with Suc.prems(2) have "send_ctrl_message w (n_sends p + Suc j) command \<noteq> None" by blast
      then show "send_ctrl_message w (n_sends ?q + j) command \<noteq> None" by simp
    qed
    show "send_ctrl_message w (n_sends ?q + k) command = None"
      using Suc.prems(3) by simp
  qed
  then show ?case by simp
qed

subsection \<open>The retry boundary\<close>

text \<open>
  C7. For every command and every \<open>num_retry = N\<close>, \<open>_retry_control_message\<close> calls
  \<open>send_ctrl_message\<close> at most \<open>N\<close> times (not at all when \<open>N\<close> is not positive) and does
  nothing between two attempts but log: its part of the trace has no \<open>Sleep\<close>. If the
  first \<open>N\<close> sends all fail, it makes exactly \<open>N\<close> of them and raises the error of the
  last. If the send number \<open>k + 1\<close> is the first to succeed, with \<open>k < N\<close>, it returns
  after exactly \<open>k + 1\<close> sends. The witness is the retry boundary of the specification:
  three sends and the third failure on a channel that always fails, two sends on one
  that answers the second.
\<close>

theorem retry_control_message_attempts:
  assumes run: "retry_control_message w command N p = (r, p')"
  shows "(\<exists>new. trace p' = trace p @ new \<and> Sleep \<notin> set new \<and>
            n_sends p' = n_sends p + length (filter (\<lambda>a. a = SendCtrlMessage command) new))
       \<and> int (n_sends p' - n_sends p) \<le> max 0 N
       \<and> (1 \<le> N \<longrightarrow> (\<forall>j < nat N. send_ctrl_message w (n_sends p + j) command \<noteq> None) \<longrightarrow>
            r \<noteq> None \<and> r = send_ctrl_message w (n_sends p + (nat N - 1)) command \<and>
            n_sends p' = n_sends p + nat N)
       \<and> (\<forall>k. int k < N \<longrightarrow> (\<forall>j < k. send_ctrl_message w (n_sends p + j) command \<noteq> None) \<longrightarrow>
            send_ctrl_message w (n_sends p + k) command = None \<longrightarrow>
            r = None \<and> n_sends p' = n_sends p + (k + 1))"
proof -
  from run have loop: "retry_loop w command N 1 p = (r, p')"
    by (simp add: retry_control_message_def)
  from retry_loop_trace[OF loop] obtain new where new:
    "trace p' = trace p @ new"
    "set new \<subseteq> range (Log DEBUG) \<union> range (Log WARNING) \<union> {SendCtrlMessage command}"
    "n_sends p' = n_sends p + length (filter (\<lambda>a. a = SendCtrlMessage command) new)"
    "int (length (filter (\<lambda>a. a = SendCtrlMessage command) new)) \<le> max 0 (N + 1 - 1)"
    by blast
  from new(2) have "Sleep \<notin> set new" by auto
  with new(1,3) have A: "\<exists>new. trace p' = trace p @ new \<and> Sleep \<notin> set new \<and>
            n_sends p' = n_sends p + length (filter (\<lambda>a. a = SendCtrlMessage command) new)"
    by blast
  from new(3,4) have B: "int (n_sends p' - n_sends p) \<le> max 0 N" by simp
  have C: "r \<noteq> None \<and> r = send_ctrl_message w (n_sends p + (nat N - 1)) command \<and>
            n_sends p' = n_sends p + nat N"
    if "1 \<le> N" and fail: "\<forall>j < nat N. send_ctrl_message w (n_sends p + j) command \<noteq> None"
  proof -
    from fail have "\<forall>j < nat (N + 1 - 1). send_ctrl_message w (n_sends p + j) command \<noteq> None"
      by simp
    from retry_loop_all_fail[OF \<open>1 \<le> N\<close> this loop]
    have r: "r = send_ctrl_message w (n_sends p + nat (N - 1)) command"
      and n: "n_sends p' = n_sends p + nat N" by simp_all
    have eq: "nat (N - 1) = nat N - 1" by simp
    have "nat N - 1 < nat N" using \<open>1 \<le> N\<close> by simp
    with fail have "send_ctrl_message w (n_sends p + (nat N - 1)) command \<noteq> None" by blast
    with r n eq show ?thesis by simp
  qed
  have D: "r = None \<and> n_sends p' = n_sends p + (k + 1)"
    if "int k < N" and "\<forall>j < k. send_ctrl_message w (n_sends p + j) command \<noteq> None"
      and "send_ctrl_message w (n_sends p + k) command = None" for k
  proof -
    from that(1) have "int k < N + 1 - 1" by simp
    from retry_loop_first_success[OF this that(2,3) loop] show ?thesis by simp
  qed
  from A B C D show ?thesis by blast
qed

theorem retry_control_message_attempts_witness:
  "fst (retry_control_message (failing_world True True) ''TERMINATE'' 3 example_pea) = Some (Failure 2)
   \<and> n_sends (snd (retry_control_message (failing_world True True) ''TERMINATE'' 3 example_pea)) = 3
   \<and> fst (retry_control_message (second_try_world True True) ''TERMINATE'' 3 example_pea) = None
   \<and> n_sends (snd (retry_control_message (second_try_world True True) ''TERMINATE'' 3 example_pea)) = 2"
proof -
  let ?f = "retry_control_message (failing_world True True) ''TERMINATE'' 3 example_pea"
  let ?s = "retry_control_message (second_try_world True True) ''TERMINATE'' 3 example_pea"
  have f: "?f = (fst ?f, snd ?f)" and s: "?s = (fst ?s, snd ?s)" by simp_all
  have n0: "n_sends example_pea = 0" by (simp add: example_pea_def)
  have "fst ?f = Some (Failure 2) \<and> n_sends (snd ?f) = 3"
    using retry_control_message_attempts[OF f] by (simp add: failing_world_def n0)
  moreover have "fst ?s = None \<and> n_sends (snd ?s) = 2"
    using retry_control_message_attempts[OF s, THEN conjunct2, THEN conjunct2, THEN conjunct2,
        THEN spec, of 1]
    by (simp add: second_try_world_def failing_world_def n0)
  ultimately show ?thesis by simp
qed

subsection \<open>The outcomes of \<open>wait_start_success\<close>\<close>

text \<open>
  C2. When the wait of \<open>wait_start_success\<close> on the ready-or-shutdown event fires within
  the ready-timeout, the call ends with the events the supervisor has seen by then
  (its own and those the worker has set), and: if Shutdown is set and Started is not,
  it raises \<open>RuntimeFailToStart\<close>; if Shutdown and Started are set, it raises
  \<open>RuntimeRunForeverEarlyError\<close>; if Shutdown is not set, it returns, the ready message
  logged last.
\<close>

theorem wait_start_success_fired:
  assumes "fired (ready_or_shutdown_wait w (n_ready_waits p))"
    and "wait_start_success w p = (r, p')"
  shows "is_shutdown p' = (is_shutdown p \<or> sees_shutdown (ready_or_shutdown_wait w (n_ready_waits p)))
       \<and> is_started p' = (is_started p \<or> sees_started (ready_or_shutdown_wait w (n_ready_waits p)))
       \<and> (is_shutdown p' \<and> \<not> is_started p' \<longrightarrow> r = Raised RuntimeFailToStart)
       \<and> (is_shutdown p' \<and> is_started p' \<longrightarrow> r = Raised RuntimeRunForeverEarlyError)
       \<and> (\<not> is_shutdown p' \<longrightarrow> r = Returned \<and> last (trace p') = Log SUCCESS ReadyMsg)"
  using assms
  by (auto simp add: wait_start_success_def wait_ready_or_shutdown_def Let_def log_def act_def
      split: if_splits)

theorem wait_start_success_fired_witness:
  "fst (wait_start_success
         ((failing_world True True)\<lparr>ready_or_shutdown_wait :=
            (\<lambda>k. \<lparr>fired = True, sees_started = False, sees_shutdown = True, sees_ready = False\<rparr>)\<rparr>)
         example_pea) = Raised RuntimeFailToStart
   \<and> fst (wait_start_success
         ((failing_world True True)\<lparr>ready_or_shutdown_wait :=
            (\<lambda>k. \<lparr>fired = True, sees_started = True, sees_shutdown = True, sees_ready = False\<rparr>)\<rparr>)
         example_pea) = Raised RuntimeRunForeverEarlyError
   \<and> fst (wait_start_success (failing_world True True) example_pea) = Returned"
proof -
  let ?w1 = "(failing_world True True)\<lparr>ready_or_shutdown_wait :=
            (\<lambda>k. \<lparr>fired = True, sees_started = False, sees_shutdown = True, sees_ready = False\<rparr>)\<rparr>"
  let ?w2 = "(failing_world True True)\<lparr>ready_or_shutdown_wait :=
            (\<lambda>k. \<lparr>fired = True, sees_started = True, sees_shutdown = True, sees_ready = False\<rparr>)\<rparr>"
  let ?w3 = "failing_world True True"
  have pair: "wait_start_success w example_pea =
      (fst (wait_start_success w example_pea), snd (wait_start_success w example_pea))" for w
    by simp
  have "fst (wait_start_success ?w1 example_pea) = Raised RuntimeFailToStart"
    using wait_start_success_fired[OF _ pair, of ?w1]
    by (simp add: failing_world_def example_pea_def)
  moreover have "fst (wait_start_success ?w2 example_pea) = Raised RuntimeRunForeverEarlyError"
    using wait_start_success_fired[OF _ pair, of ?w2]
    by (simp add: failing_world_def example_pea_def)
  moreover have "fst (wait_start_success ?w3 example_pea) = Returned"
    using wait_start_success_fired[OF _ pair, of ?w3]
    by (simp add: failing_world_def example_pea_def)
  ultimately show ?thesis by simp
qed

subsection \<open>What the control commands leave unchanged\<close>



lemma same_but_channel_refl [simp]: "same_but_channel p p"
  by (simp add: same_but_channel_def)

lemma same_but_channel_log [simp]: "same_but_channel p (log l m p)" "same_but_channel (log l m p) p"
  by (simp_all add: same_but_channel_def log_def)

lemma same_but_channel_trans:
  "same_but_channel p q \<Longrightarrow> same_but_channel q r \<Longrightarrow> same_but_channel p r"
  by (simp add: same_but_channel_def)





lemma trace_close_end:
  "close_end p = (Returned, p') \<Longrightarrow> trace p' = trace p @ [Log DEBUG StopMsg, LoggerClose] \<and> logger_closed p'"
  by (auto simp add: close_end_def log_def act_def)

subsection \<open>Closing a Pea that has shut down\<close>

text \<open>
  C10. On a Pea whose Shutdown is set, as it is once a \<open>close\<close> has seen the worker
  shut down, \<open>close\<close> returns after writing two debug lines and closing the logger, and
  nothing else: the trace gets no wait, no control command, no terminate and no join,
  and no event and no counter changes.
\<close>

theorem close_after_shutdown:
  assumes "is_shutdown p"
  shows "close w p =
     (Returned, p\<lparr>trace := trace p @ [Log DEBUG WaitingForReadyOrShutdown, Log DEBUG StopMsg, LoggerClose],
                 logger_closed := True\<rparr>)"
  using assms by (simp add: close_def close_end_def log_def act_def)

theorem close_after_shutdown_witness:
  "is_shutdown (snd (close (obliging_world True True) ready_pea))
   \<and> fst (close (obliging_world True True) ready_pea) = Returned
   \<and> close (failing_world False False) (snd (close (obliging_world True True) ready_pea)) =
       (Returned, (snd (close (obliging_world True True) ready_pea))
          \<lparr>trace := trace (snd (close (obliging_world True True) ready_pea)) @
                      [Log DEBUG WaitingForReadyOrShutdown, Log DEBUG StopMsg, LoggerClose],
           logger_closed := True\<rparr>)"
proof -
  have first: "is_shutdown (snd (close (obliging_world True True) ready_pea))
       \<and> fst (close (obliging_world True True) ready_pea) = Returned"
    by (simp add: close_def close_try_def deactivate_runtime_def cancel_runtime_def
        await_shutdown_def wait_shutdown_def retry_control_message_def retry_loop.simps
        close_end_def join_def is_dealer_def log_def act_def obliging_world_def
        failing_world_def ready_pea_def example_pea_def example_args_def Let_def)
  with close_after_shutdown[of "snd (close (obliging_world True True) ready_pea)" "failing_world False False"]
  show ?thesis by simp
qed

lemmas close_eval =
  close_def close_try_def deactivate_runtime_def cancel_runtime_def await_shutdown_def
  wait_shutdown_def wait_ready_or_shutdown_def ready_timeout_def terminate_def
  retry_control_message_def retry_loop.simps close_end_def join_def is_dealer_def
  log_def act_def Let_def

lemmas example_eval =
  obliging_world_def second_try_world_def failing_world_def ready_pea_def example_pea_def
  example_args_def

subsection \<open>Errors of the handshake of a ready Pea\<close>






subsection \<open>Closing a Pea that is not ready yet\<close>




subsection \<open>The logger when \<open>close\<close> raises\<close>

text \<open>
  C9 at two inputs. A Pea is closed before it is ready and Ready arrives. If TERMINATE
  runs out of retries, or if Shutdown does not come within the control timeout, \<open>close\<close>
  raises and the logger has not been closed.
\<close>

theorem close_raises_with_logger_open:
  "fst (close (failing_world True True) example_pea) = Raised (Failure 2)
   \<and> \<not> logger_closed (snd (close (failing_world True True) example_pea))
   \<and> LoggerClose \<notin> set (trace (snd (close (failing_world True True) example_pea)))
   \<and> fst (close (obliging_world True False) example_pea) = Raised (ShutdownNotReceived 5000)
   \<and> \<not> logger_closed (snd (close (obliging_world True False) example_pea))
   \<and> LoggerClose \<notin> set (trace (snd (close (obliging_world True False) example_pea)))"
  by (simp add: close_eval example_eval)

text \<open>Whenever \<open>close\<close> returns, it has closed the logger last.\<close>

lemma close_returned_logger_closed:
  assumes "close w p = (Returned, p')"
  shows "logger_closed p' \<and> last (trace p') = LoggerClose"
proof -
  have e: "close_end q = (Returned, p') \<Longrightarrow> logger_closed p' \<and> last (trace p') = LoggerClose" for q
    by (auto simp add: close_end_def log_def act_def)
  from assms show ?thesis
    by (auto simp add: close_def Let_def join_def dest!: e
        split: if_splits prod.splits option.splits bool.splits waited.splits)
qed

subsection \<open>The entry point\<close>

lemmas run_eval =
  run_def run_except_def with_runtime_def run_finally_def set_envs_def unset_envs_def
  init_envs_def dict_update_def self_name_def truthy_def log_def act_def Let_def

lemmas runtime_eval =
  fresh_worker_def good_runtime_def unbuildable_runtime_def crashing_runtime_def
  unenterable_runtime_def user_args_def nameless_args_def example_args_def

text \<open>When \<open>run\<close> blocks: a call of the Runtime never returns.\<close>

lemma with_runtime_result:
  assumes "with_runtime rt s = (r, s')"
  shows "environ s' = environ s \<and> is_started s' = is_started s \<and> is_shutdown s' = is_shutdown s
       \<and> unsetenv_raises s' = unsetenv_raises s \<and> putenv_raises s' = putenv_raises s
       \<and> (\<exists>mid. trace s' = trace s @ mid \<and> set mid \<subseteq> runtime_actions)
       \<and> (r = Blocked \<longleftrightarrow> enter rt = NeverReturns \<or> (enter rt = Returns \<and> run_forever rt = NeverReturns))"
  using assms
  by (auto simp add: with_runtime_def runtime_actions_def act_def Let_def
      split: call.splits exit_result.splits if_splits)

lemma run_finally_not_blocked:
  "run_finally a envs r s = (r', s') \<Longrightarrow> r \<noteq> Blocked \<Longrightarrow> r' \<noteq> Blocked"
  by (auto simp add: run_finally_def split: prod.splits option.splits)

lemma run_blocked:
  assumes "run a rt envs s = (r, s')"
  shows "r = Blocked \<longleftrightarrow>
           fst (set_envs a envs s) = None \<and>
           (construct rt = NeverReturns \<or>
            (construct rt = Returns \<and>
              (enter rt = NeverReturns \<or> (enter rt = Returns \<and> run_forever rt = NeverReturns))))"
proof -
  obtain e s0 where se: "set_envs a envs s = (e, s0)" by (cases "set_envs a envs s")
  show ?thesis
  proof (cases e)
    case (Some ex)
    with assms se have "run_finally a envs Returned (run_except a ex s0) = (r, s')"
      by (simp add: run_def)
    from run_finally_not_blocked[OF this] Some se show ?thesis by simp
  next
    case None
    show ?thesis
    proof (cases "construct rt")
      case Returns
      let ?s2 = "(act SetStarted (act Construct s0))\<lparr>is_started := True\<rparr>"
      obtain r2 q where w: "with_runtime rt ?s2 = (r2, q)" by (cases "with_runtime rt ?s2")
      show ?thesis
      proof (cases "r2 = Blocked")
        case True
        with Returns None se assms w have "r = Blocked" by (simp add: run_def Let_def)
        with with_runtime_result[OF w] True Returns None se show ?thesis by simp
      next
        case False
        with Returns None se assms w have "run_finally a envs r2 q = (r, s')"
          by (auto simp add: run_def Let_def split: outcome.splits)
        from run_finally_not_blocked[OF this False] with_runtime_result[OF w] False Returns None se
        show ?thesis by simp
      qed
    next
      case NeverReturns
      with None se assms show ?thesis by (simp add: run_def Let_def)
    next
      case (Raises ex)
      with None se assms have "run_finally a envs Returned (run_except a ex (act Construct s0)) = (r, s')"
        by (simp add: run_def Let_def)
      from run_finally_not_blocked[OF this] Raises None se show ?thesis by simp
    qed
  qed
qed

subsection \<open>Started and Shutdown\<close>

text \<open>
  C1 at an input where it fails. The user has given a variable with an empty name, the
  backend is a process. \<open>os.environ.update\<close> sets the two variables of the Pea and raises
  on the third, inside the \<open>try\<close>: the error is logged and the Runtime is never
  constructed. In the \<open>finally\<close> clause \<open>os.unsetenv\<close> raises on the same name, before
  \<open>is_shutdown.set()\<close>: \<open>run\<close> ends by raising and neither Started nor Shutdown is set.
\<close>

theorem run_raises_before_shutdown:
  "runtime_backend nameless_args = PROCESS \<and> env nameless_args = Some [([], ''x'')]
   \<and> init_envs nameless_args = [(''JINA_POD_NAME'', ''pea''), (''JINA_LOG_ID'', ''id0''), ([], ''x'')]
   \<and> fst (run nameless_args good_runtime (init_envs nameless_args) fresh_worker) = Raised (OSError 22)
   \<and> \<not> is_shutdown (snd (run nameless_args good_runtime (init_envs nameless_args) fresh_worker))
   \<and> \<not> is_started (snd (run nameless_args good_runtime (init_envs nameless_args) fresh_worker))
   \<and> trace (snd (run nameless_args good_runtime (init_envs nameless_args) fresh_worker)) =
       [EnvironUpdate [(''JINA_POD_NAME'', ''pea''), (''JINA_LOG_ID'', ''id0''), ([], ''x'')],
        Log ERROR (DuringInitialization (OSError 22)),
        Unsetenv ''JINA_POD_NAME'', Unsetenv ''JINA_LOG_ID'', Unsetenv []]"
  by (simp add: run_eval runtime_eval)

subsection \<open>Exceptions of the Runtime\<close>

text \<open>
  C4 at two inputs. The constructor returns; then either \<open>run_forever\<close> raises and
  \<open>__exit__\<close> returns a false value, or \<open>__enter__\<close> raises. Both times the exception leaves
  \<open>run\<close>, after Shutdown is set.
\<close>

theorem run_lets_exception_out:
  "(let (r, s') = run example_args crashing_runtime (init_envs example_args) fresh_worker
    in r = Raised (Failure 8) \<and> is_shutdown s')
   \<and> (let (r, s') = run example_args unenterable_runtime (init_envs example_args) fresh_worker
    in r = Raised (Failure 9) \<and> is_shutdown s')"
  by (simp add: run_eval runtime_eval)

subsection \<open>The environment overlay\<close>

text \<open>
  C5 at two inputs where it fails. The user has given no variables. With a process as
  backend nothing is written to the environment before the Runtime is constructed
  (the keys of the overlay are unset all the same, after it has stopped); with a
  thread as backend no warning is logged.
\<close>

theorem run_overlay_skipped:
  "\<not> truthy (env example_args) \<and> runtime_backend example_args = PROCESS
   \<and> init_envs example_args = [(''JINA_POD_NAME'', ''pea''), (''JINA_LOG_ID'', ''id0'')]
   \<and> trace (snd (run example_args good_runtime (init_envs example_args) fresh_worker)) =
       [Construct, SetStarted, Enter, RunForever, Exit None,
        Unsetenv ''JINA_POD_NAME'', Unsetenv ''JINA_LOG_ID'', SetShutdown]
   \<and> trace (snd (run (example_args\<lparr>runtime_backend := THREAD\<rparr>) good_runtime
                    (init_envs (example_args\<lparr>runtime_backend := THREAD\<rparr>)) fresh_worker)) =
       [Construct, SetStarted, Enter, RunForever, Exit None, SetShutdown]"
  by (simp add: run_eval runtime_eval)

subsection \<open>The entry point when no variable is refused\<close>

lemma update_environ_accepted:
  assumes "\<forall>(k, v) \<in> set kvs. putenv_raises s k v = None"
  shows "\<exists>s'. update_environ kvs s = (None, s') \<and> trace s' = trace s \<and>
           is_started s' = is_started s \<and> is_shutdown s' = is_shutdown s \<and>
           unsetenv_raises s' = unsetenv_raises s \<and>
           (\<forall>k. k \<notin> fst ` set kvs \<longrightarrow> environ s' k = environ s k)"
  using assms
proof (induction kvs arbitrary: s)
  case Nil
  then show ?case by simp
next
  case (Cons kv kvs)
  obtain k v where kv: "kv = (k, v)" by (cases kv)
  let ?s = "s\<lparr>environ := (environ s)(k \<mapsto> v)\<rparr>"
  from Cons.prems kv have here: "putenv_raises s k v = None"
    and rest: "\<forall>(k, v) \<in> set kvs. putenv_raises ?s k v = None" by auto
  from Cons.IH[OF rest] obtain s' where s': "update_environ kvs ?s = (None, s')"
    "trace s' = trace ?s" "is_started s' = is_started ?s" "is_shutdown s' = is_shutdown ?s"
    "unsetenv_raises s' = unsetenv_raises ?s"
    "\<forall>k. k \<notin> fst ` set kvs \<longrightarrow> environ s' k = environ ?s k" by blast
  from here s'(1) have "update_environ (kv # kvs) s = (None, s')" by (simp add: kv)
  with s'(2-6) show ?case by (auto simp add: kv)
qed

lemma unsetenv_each_accepted:
  assumes "\<forall>k \<in> set ks. unsetenv_raises s k = None"
  shows "\<exists>s'. unsetenv_each ks s = (None, s') \<and> trace s' = trace s @ map Unsetenv ks \<and>
           is_started s' = is_started s \<and> is_shutdown s' = is_shutdown s \<and>
           (\<forall>k. environ s' k = (if k \<in> set ks then None else environ s k))"
  using assms
proof (induction ks arbitrary: s)
  case Nil
  then show ?case by simp
next
  case (Cons k ks)
  let ?s = "(act (Unsetenv k) s)\<lparr>environ := (environ s)(k := None)\<rparr>"
  from Cons.prems have here: "unsetenv_raises s k = None"
    and rest: "\<forall>k \<in> set ks. unsetenv_raises ?s k = None" by (auto simp add: act_def)
  from Cons.IH[OF rest] obtain s' where s': "unsetenv_each ks ?s = (None, s')"
    "trace s' = trace ?s @ map Unsetenv ks" "is_started s' = is_started ?s"
    "is_shutdown s' = is_shutdown ?s"
    "\<forall>j. environ s' j = (if j \<in> set ks then None else environ ?s j)" by blast
  from here s'(1) have "unsetenv_each (k # ks) s = (None, s')" by simp
  with s'(2-5) show ?case by (auto simp add: act_def)
qed

text \<open>
  If the operating system refuses none of the variables of \<open>envs\<close> and \<open>run\<close> finishes,
  then Shutdown is set, last of all; Started is set if and only if it was set before or
  the constructor has returned; with a process as backend the environment ends
  without the keys of \<open>envs\<close>, and otherwise as it was; and if the user has given
  variables, \<open>envs\<close> is written to the environment (process) or a warning is logged
  (thread) before the Runtime is constructed.
\<close>

lemma run_result:
  assumes run: "run a rt envs s = (r, s')" and nb: "r \<noteq> Blocked"
    and put: "\<forall>(k, v) \<in> set envs. putenv_raises s k v = None"
    and unset: "\<forall>k \<in> fst ` set envs. unsetenv_raises s k = None"
  shows "is_shutdown s' \<and> is_started s' = (is_started s \<or> construct rt = Returns)
       \<and> (\<forall>k. environ s' k =
            (if runtime_backend a \<noteq> THREAD \<and> k \<in> fst ` set envs then None else environ s k))
       \<and> (\<exists>mid. set mid \<subseteq> runtime_actions \<and>
             trace s' = trace s
               @ (if truthy (env a)
                  then (if runtime_backend a = THREAD then [Log WARNING EnvsWithThread]
                        else [EnvironUpdate envs])
                  else [])
               @ [Construct] @ mid
               @ (if runtime_backend a \<noteq> THREAD then map Unsetenv (map fst envs) else [])
               @ [SetShutdown])"
proof -
  let ?pre = "if truthy (env a)
                  then (if runtime_backend a = THREAD then [Log WARNING EnvsWithThread]
                        else [EnvironUpdate envs])
                  else []"
  let ?post = "if runtime_backend a \<noteq> THREAD then map Unsetenv (map fst envs) else []"
  have "\<exists>s0. set_envs a envs s = (None, s0) \<and> trace s0 = trace s @ ?pre \<and>
          is_started s0 = is_started s \<and> unsetenv_raises s0 = unsetenv_raises s \<and>
          (\<forall>k. k \<notin> fst ` set envs \<longrightarrow> environ s0 k = environ s k) \<and>
          (runtime_backend a = THREAD \<longrightarrow> environ s0 = environ s)"
  proof (cases "truthy (env a) \<and> runtime_backend a \<noteq> THREAD")
    case True
    from put have "\<forall>(k, v) \<in> set envs. putenv_raises (act (EnvironUpdate envs) s) k v = None"
      by (simp add: act_def)
    from update_environ_accepted[OF this] True show ?thesis
      by (auto simp add: set_envs_def act_def)
  next
    case False
    then show ?thesis by (auto simp add: set_envs_def log_def)
  qed
  then obtain s0 where s0: "set_envs a envs s = (None, s0)" "trace s0 = trace s @ ?pre"
    "is_started s0 = is_started s" "unsetenv_raises s0 = unsetenv_raises s"
    "\<forall>k. k \<notin> fst ` set envs \<longrightarrow> environ s0 k = environ s k"
    "runtime_backend a = THREAD \<longrightarrow> environ s0 = environ s" by blast
  let ?s1 = "act Construct s0"
  have fin: "ro = r \<and> is_shutdown s' \<and> is_started s' = is_started q
       \<and> (\<forall>k. environ s' k =
            (if runtime_backend a \<noteq> THREAD \<and> k \<in> fst ` set envs then None else environ s k))
       \<and> trace s' = trace q @ ?post @ [SetShutdown]"
    if f: "run_finally a envs ro q = (r, s')" and q: "environ q = environ s0"
      "unsetenv_raises q = unsetenv_raises s0" for ro q
  proof (cases "runtime_backend a = THREAD")
    case True
    with f q s0(6) show ?thesis
      by (auto simp add: run_finally_def unset_envs_def act_def)
  next
    case False
    from unset q(2) s0(4) have "\<forall>k \<in> set (map fst envs). unsetenv_raises q k = None" by simp
    from unsetenv_each_accepted[OF this] obtain q' where q': "unsetenv_each (map fst envs) q = (None, q')"
      "trace q' = trace q @ map Unsetenv (map fst envs)" "is_started q' = is_started q"
      "\<forall>k. environ q' k = (if k \<in> set (map fst envs) then None else environ q k)" by blast
    have "unset_envs a envs q = (None, if envs = [] then q else q')"
      using False q'(1) by (simp add: unset_envs_def)
    with f have r: "ro = r" and s': "s' = (act SetShutdown (if envs = [] then q else q'))\<lparr>is_shutdown := True\<rparr>"
      by (simp_all add: run_finally_def)
    have "\<forall>k. environ s' k = (if k \<in> fst ` set envs then None else environ s k)"
      using s' q'(4) q(1) s0(5) by (auto simp add: act_def)
    moreover have "trace s' = trace q @ map Unsetenv (map fst envs) @ [SetShutdown]"
      using s' q'(2) by (auto simp add: act_def)
    moreover have "is_started s' = is_started q" using s' q'(3) by (auto simp add: act_def)
    moreover have "is_shutdown s'" using s' by (simp add: act_def)
    ultimately show ?thesis using False r by simp
  qed
  show ?thesis
  proof (cases "construct rt")
    case NeverReturns
    with run nb s0(1) show ?thesis by (simp add: run_def Let_def)
  next
    case (Raises ex)
    let ?q = "run_except a ex ?s1"
    from Raises run s0(1) have f: "run_finally a envs Returned ?q = (r, s')"
      by (simp add: run_def Let_def)
    have q: "environ ?q = environ s0" "unsetenv_raises ?q = unsetenv_raises s0"
      "is_started ?q = is_started s"
      "trace ?q = trace s @ ?pre @ [Construct]
          @ [Log ERROR (if quiet_error a then EmptyMessage else DuringInitialization ex)]"
      using s0(2,3) by (simp_all add: run_except_def log_def act_def)
    have "set [Log ERROR (if quiet_error a then EmptyMessage else DuringInitialization ex)]
        \<subseteq> runtime_actions" by (simp add: runtime_actions_def)
    with fin[OF f q(1,2)] q(3,4) Raises show ?thesis
      by (intro conjI exI[of _ "[Log ERROR (if quiet_error a then EmptyMessage
            else DuringInitialization ex)]"]) simp_all
  next
    case Returns
    let ?s2 = "(act SetStarted ?s1)\<lparr>is_started := True\<rparr>"
    obtain r2 q where w: "with_runtime rt ?s2 = (r2, q)" by (cases "with_runtime rt ?s2")
    from Returns run nb s0(1) w have f: "run_finally a envs r2 q = (r, s')"
      by (auto simp add: run_def Let_def split: outcome.splits)
    from with_runtime_result[OF w] obtain mid where mid:
      "environ q = environ ?s2" "is_started q = is_started ?s2" "trace q = trace ?s2 @ mid"
      "set mid \<subseteq> runtime_actions" "unsetenv_raises q = unsetenv_raises ?s2"
      by auto
    have q: "environ q = environ s0" "unsetenv_raises q = unsetenv_raises s0" "is_started q"
      "trace q = trace s @ ?pre @ [Construct] @ (SetStarted # mid)"
      using mid(1,2,3,5) s0(2) by (simp_all add: act_def)
    have "set (SetStarted # mid) \<subseteq> runtime_actions" using mid(4) by (simp add: runtime_actions_def)
    with fin[OF f q(1,2)] q(3,4) Returns show ?thesis
      by (intro conjI exI[of _ "SetStarted # mid"]) simp_all
  qed
qed

text \<open>When \<open>run\<close> raises without a refused variable: only out of the \<open>with\<close> block.\<close>

lemma run_raises:
  assumes run: "run a rt envs s = (r, s')"
    and put: "\<forall>(k, v) \<in> set envs. putenv_raises s k v = None"
    and unset: "\<forall>k \<in> fst ` set envs. unsetenv_raises s k = None"
  shows "r = Raised e \<longleftrightarrow>
           construct rt = Returns \<and>
           (enter rt = Raises e \<or>
            (enter rt = Returns \<and>
              ((run_forever rt = Returns \<and> exit_with rt None = ExitRaises e) \<or>
               (\<exists>ex. run_forever rt = Raises ex \<and>
                  (exit_with rt (Some ex) = ExitRaises e \<or>
                   (exit_with rt (Some ex) = ExitReturns False \<and> e = ex))))))"
proof -
  have "\<exists>s0. set_envs a envs s = (None, s0) \<and> unsetenv_raises s0 = unsetenv_raises s"
  proof (cases "truthy (env a) \<and> runtime_backend a \<noteq> THREAD")
    case True
    from put have "\<forall>(k, v) \<in> set envs. putenv_raises (act (EnvironUpdate envs) s) k v = None"
      by (simp add: act_def)
    from update_environ_accepted[OF this] True show ?thesis
      by (auto simp add: set_envs_def act_def)
  next
    case False
    then show ?thesis by (auto simp add: set_envs_def log_def)
  qed
  then obtain s0 where s0: "set_envs a envs s = (None, s0)" "unsetenv_raises s0 = unsetenv_raises s"
    by blast
  have fin: "fst (run_finally a envs ro q) = ro" if "unsetenv_raises q = unsetenv_raises s0" for ro q
  proof -
    from unset that s0(2) have "\<forall>k \<in> set (map fst envs). unsetenv_raises q k = None" by simp
    from unsetenv_each_accepted[OF this] show ?thesis
      by (auto simp add: run_finally_def unset_envs_def)
  qed
  show ?thesis
  proof (cases "construct rt")
    case NeverReturns
    with run s0(1) show ?thesis by (auto simp add: run_def Let_def)
  next
    case (Raises ex)
    have "fst (run_finally a envs Returned (run_except a ex (act Construct s0))) = Returned"
      by (rule fin) (simp add: run_except_def log_def act_def)
    with Raises run s0(1) show ?thesis by (auto simp add: run_def Let_def)
  next
    case Returns
    let ?s2 = "(act SetStarted (act Construct s0))\<lparr>is_started := True\<rparr>"
    obtain r2 q where w: "with_runtime rt ?s2 = (r2, q)" by (cases "with_runtime rt ?s2")
    from with_runtime_result[OF w] have "unsetenv_raises q = unsetenv_raises s0"
      by (simp add: act_def)
    from fin[OF this] have f: "fst (run_finally a envs r2 q) = r2" .
    have "r = r2" 
    proof (cases "r2 = Blocked")
      case True
      with Returns run s0(1) w show ?thesis by (simp add: run_def Let_def)
    next
      case False
      with Returns run s0(1) w have "run_finally a envs r2 q = (r, s')"
        by (auto simp add: run_def Let_def split: outcome.splits)
      with f show ?thesis by simp
    qed
    with w Returns show ?thesis
      by (auto simp add: with_runtime_def Let_def
          split: call.splits exit_result.splits if_splits)
  qed
qed

text \<open>
  With a variable of the user the overlay is applied: on a process it is written
  before the Runtime is constructed and its keys are unset at the end, and on a thread
  the warning is logged.
\<close>

lemma run_overlay_applied:
  "init_envs user_args = [(''JINA_POD_NAME'', ''pea''), (''JINA_LOG_ID'', ''id0''), (''MY_VAR'', ''1'')]
   \<and> trace (snd (run user_args good_runtime (init_envs user_args) fresh_worker)) =
       [EnvironUpdate [(''JINA_POD_NAME'', ''pea''), (''JINA_LOG_ID'', ''id0''), (''MY_VAR'', ''1'')],
        Construct, SetStarted, Enter, RunForever, Exit None,
        Unsetenv ''JINA_POD_NAME'', Unsetenv ''JINA_LOG_ID'', Unsetenv ''MY_VAR'', SetShutdown]
   \<and> environ (snd (run user_args good_runtime (init_envs user_args) fresh_worker)) =
       [''HOME'' \<mapsto> ''/root'']
   \<and> trace (snd (run (user_args\<lparr>runtime_backend := THREAD\<rparr>) good_runtime
                    (init_envs (user_args\<lparr>runtime_backend := THREAD\<rparr>)) fresh_worker)) =
       [Log WARNING EnvsWithThread, Construct, SetStarted, Enter, RunForever, Exit None,
        SetShutdown]"
  by (auto simp add: run_eval runtime_eval fun_eq_iff)

subsection \<open>From the entry point to the supervisor\<close>

text \<open>
  The two failures a supervisor tells apart by Started, when no variable is refused: a
  worker whose Runtime could not be constructed makes \<open>wait_start_success\<close> raise
  \<open>RuntimeFailToStart\<close>, and one whose Runtime was constructed and has stopped makes it
  raise \<open>RuntimeRunForeverEarlyError\<close>.
\<close>

lemma failed_construction_seen:
  assumes "run a rt envs s = (r, s')" and "construct rt = Raises ex"
    and "\<forall>(k, v) \<in> set envs. putenv_raises s k v = None"
    and "\<forall>k \<in> fst ` set envs. unsetenv_raises s k = None"
    and "\<not> is_started s" and "\<not> is_started p"
  shows "fst (wait_start_success (world_after s') p) = Raised RuntimeFailToStart"
proof -
  from run_blocked[OF assms(1)] assms(2) have "r \<noteq> Blocked" by simp
  from run_result[OF assms(1) this assms(3,4)] assms(2,5)
  have "is_shutdown s'" "\<not> is_started s'" by simp_all
  with assms(6) show ?thesis
    by (simp add: wait_start_success_def wait_ready_or_shutdown_def world_after_def Let_def
        log_def act_def)
qed

lemma early_return_seen:
  assumes "run a rt envs s = (r, s')" and "r \<noteq> Blocked" and "construct rt = Returns"
    and "\<forall>(k, v) \<in> set envs. putenv_raises s k v = None"
    and "\<forall>k \<in> fst ` set envs. unsetenv_raises s k = None"
  shows "fst (wait_start_success (world_after s') p) = Raised RuntimeRunForeverEarlyError"
proof -
  from run_result[OF assms(1,2,4,5)] assms(3) have "is_shutdown s'" "is_started s'" by simp_all
  then show ?thesis
    by (simp add: wait_start_success_def wait_ready_or_shutdown_def world_after_def Let_def
        log_def act_def)
qed

subsection \<open>The gateway protocol in the Runtime selection\<close>

lemmas selection_eval =
  get_runtime_cls_def remote_rule_def container_rule_def hub_rule_def protocol_rule_def
  gateway_runtime_dict_def gateway_runtime_values_def Let_def

text \<open>
  C6, as the code has it. The rule of the protocol is the last of \<open>_get_runtime_cls\<close>, and
  the rules before it are evaluated first. Whenever \<open>args\<close> has a \<open>protocol\<close> and the method
  returns, it returns the gateway Runtime class of that protocol (\<open>GRPCRuntime\<close> for gRPC,
  \<open>WebSocketRuntime\<close> for WebSocket, \<open>HTTPRuntime\<close> for HTTP) and leaves its name in
  \<open>args.runtime_cls\<close>, whatever the other rules have selected. The method does not return,
  but raises, exactly when the class asked for is \<open>ZEDRuntime\<close>, the remote rule does not
  apply (the host is the default one or remote execution is disabled) and either
  \<open>uses\<close> is \<open>None\<close>, or \<open>uses\<close> is a hub reference that is no container image and whose pull
  raises or gives \<open>None\<close>. In particular, with a protocol and a \<open>uses\<close> that starts with
  \<open>docker://\<close> the method returns the gateway Runtime class.
\<close>

theorem get_runtime_cls_gateway:
  assumes "protocol a = Some pr"
  shows "(let res = get_runtime_cls default_host is_valid_huburi pull get_runtime a;
              nm = (case pr of GRPC \<Rightarrow> ''GRPCRuntime'' | WEBSOCKET \<Rightarrow> ''WebSocketRuntime''
                    | HTTP \<Rightarrow> ''HTTPRuntime'');
              local_zed = (runtime_cls a = ''ZEDRuntime'' \<and> (host a = default_host \<or> disable_remote a))
          in (\<forall>c a'. res = Inr (c, a') \<longrightarrow> c = get_runtime nm \<and> runtime_cls a' = nm)
           \<and> ((\<exists>ex. res = Inl ex) \<longleftrightarrow>
                local_zed \<and>
                (uses a = None \<or>
                 (\<exists>u. uses a = Some u \<and> \<not> prefix ''docker://'' u \<and> is_valid_huburi (Some u) \<and>
                      (\<forall>u'. pull (Some u) \<noteq> Inr (Some u')))))
           \<and> (\<forall>u. uses a = Some u \<and> prefix ''docker://'' u \<longrightarrow>
                 (\<exists>a'. res = Inr (get_runtime nm, a') \<and> runtime_cls a' = nm)))"
proof -
  let ?a1 = "remote_rule default_host a"
  have a1: "protocol ?a1 = Some pr" "uses ?a1 = uses a"
    "runtime_cls ?a1 = ''ZEDRuntime'' \<longleftrightarrow>
       runtime_cls a = ''ZEDRuntime'' \<and> (host a = default_host \<or> disable_remote a)"
    using assms by (auto simp add: remote_rule_def gateway_runtime_values_def)
  show ?thesis
  proof (cases "runtime_cls ?a1 = ''ZEDRuntime''")
    case False
    then have "container_rule ?a1 = Inr ?a1" by (simp add: container_rule_def)
    moreover from False have "hub_rule is_valid_huburi pull ?a1 = Inr ?a1"
      by (simp add: hub_rule_def)
    ultimately show ?thesis using a1 False
      by (cases pr) (auto simp add: get_runtime_cls_def protocol_rule_def gateway_runtime_dict_def Let_def)
  next
    case zed: True
    show ?thesis
    proof (cases "uses a")
      case None
      with zed a1 have "container_rule ?a1 = Inl AttributeError" by (simp add: container_rule_def)
      with None zed a1 show ?thesis by (simp add: get_runtime_cls_def Let_def)
    next
      case (Some u)
      show ?thesis
      proof (cases "prefix ''docker://'' u")
        case True
        let ?a2 = "?a1\<lparr>runtime_cls := ''ContainerRuntime''\<rparr>"
        from True Some zed a1 have "container_rule ?a1 = Inr ?a2" by (simp add: container_rule_def)
        moreover have "hub_rule is_valid_huburi pull ?a2 = Inr ?a2" by (simp add: hub_rule_def)
        ultimately show ?thesis using a1 True Some
          by (cases pr)
             (auto simp add: get_runtime_cls_def protocol_rule_def gateway_runtime_dict_def Let_def)
      next
        case False
        with Some zed a1 have c: "container_rule ?a1 = Inr ?a1" by (simp add: container_rule_def)
        show ?thesis
        proof (cases "is_valid_huburi (Some u)")
          case nv: False
          with zed Some a1 have "hub_rule is_valid_huburi pull ?a1 = Inr ?a1"
            by (simp add: hub_rule_def)
          with c a1 False Some nv show ?thesis
            by (cases pr)
               (auto simp add: get_runtime_cls_def protocol_rule_def gateway_runtime_dict_def Let_def)
        next
          case v: True
          show ?thesis
          proof (cases "pull (Some u)")
            case (Inl ex)
            with zed Some a1 v have "hub_rule is_valid_huburi pull ?a1 = Inl ex"
              by (simp add: hub_rule_def)
            with c a1 False Some v Inl zed show ?thesis
              by (auto simp add: get_runtime_cls_def Let_def)
          next
            case (Inr uo)
            show ?thesis
            proof (cases uo)
              case None
              with Inr zed Some a1 v have "hub_rule is_valid_huburi pull ?a1 = Inl AttributeError"
                by (simp add: hub_rule_def)
              with c a1 False Some v Inr None zed show ?thesis
                by (auto simp add: get_runtime_cls_def Let_def)
            next
              case (Some u')
              with Inr zed \<open>uses a = Some u\<close> a1 v obtain a3 where
                h: "hub_rule is_valid_huburi pull ?a1 = Inr a3" "protocol a3 = Some pr"
                by (auto simp add: hub_rule_def)
              with c a1 False \<open>uses a = Some u\<close> v Inr Some show ?thesis
                by (cases pr)
                   (auto simp add: get_runtime_cls_def protocol_rule_def gateway_runtime_dict_def
                      Let_def)
            qed
          qed
        qed
      qed
    qed
  qed
qed

theorem get_runtime_cls_gateway_witness:
  "runtime_cls example_args = ''ZEDRuntime'' \<and> uses example_args = Some ''docker://image''
   \<and> map_sum id fst (get_runtime_cls ''0.0.0.0'' (\<lambda>u. False) (\<lambda>u. Inr u) (\<lambda>c. c)
         (example_args\<lparr>protocol := Some GRPC\<rparr>)) = Inr ''GRPCRuntime''
   \<and> map_sum id fst (get_runtime_cls ''0.0.0.0'' (\<lambda>u. False) (\<lambda>u. Inr u) (\<lambda>c. c)
         (example_args\<lparr>protocol := Some WEBSOCKET\<rparr>)) = Inr ''WebSocketRuntime''
   \<and> map_sum id fst (get_runtime_cls ''0.0.0.0'' (\<lambda>u. False) (\<lambda>u. Inr u) (\<lambda>c. c)
         (example_args\<lparr>protocol := Some HTTP\<rparr>)) = Inr ''HTTPRuntime''
   \<and> map_sum id fst (get_runtime_cls ''0.0.0.0'' (\<lambda>u. False) (\<lambda>u. Inr u) (\<lambda>c. c)
         (example_args\<lparr>protocol := None\<rparr>)) = Inr ''ContainerRuntime''"
proof -
  have u: "uses (example_args\<lparr>protocol := Some pr\<rparr>) = Some ''docker://image''" for pr
    by (simp add: example_args_def)
  have d: "prefix ''docker://'' ''docker://image''" by simp
  have g: "map_sum id fst (get_runtime_cls ''0.0.0.0'' (\<lambda>u. False) (\<lambda>u. Inr u) (\<lambda>c. c)
         (example_args\<lparr>protocol := Some pr\<rparr>)) =
       Inr (case pr of GRPC \<Rightarrow> ''GRPCRuntime'' | WEBSOCKET \<Rightarrow> ''WebSocketRuntime''
                    | HTTP \<Rightarrow> ''HTTPRuntime'')" for pr
  proof -
    have p: "protocol (example_args\<lparr>protocol := Some pr\<rparr>) = Some pr" by simp
    from get_runtime_cls_gateway[OF p, where get_runtime = "\<lambda>c. c" and default_host = "''0.0.0.0''"
        and is_valid_huburi = "\<lambda>u. False" and pull = "\<lambda>u. Inr u"] u[of pr] d
    show ?thesis by (auto simp add: Let_def)
  qed
  have "map_sum id fst (get_runtime_cls ''0.0.0.0'' (\<lambda>u. False) (\<lambda>u. Inr u) (\<lambda>c. c)
         (example_args\<lparr>protocol := None\<rparr>)) = Inr ''ContainerRuntime''"
    by (simp add: selection_eval example_args_def)
  moreover have "runtime_cls example_args = ''ZEDRuntime''" "uses example_args = Some ''docker://image''"
    by (simp_all add: example_args_def)
  ultimately show ?thesis using g[of GRPC] g[of WEBSOCKET] g[of HTTP] by simp
qed

text \<open>
  As the specification has it, the claim fails: with a protocol, the class \<open>ZEDRuntime\<close>
  on the default host and a \<open>uses\<close> of the hub whose pull raises, the method ends with the
  exception of the pull and selects nothing; and with a \<open>uses\<close> that is \<open>None\<close> it ends with
  the \<open>AttributeError\<close> of \<open>startswith\<close>.
\<close>

theorem get_runtime_cls_pull_raises:
  "protocol hub_args = Some HTTP \<and> runtime_cls hub_args = ''ZEDRuntime''
   \<and> uses hub_args = Some ''jinahub://executor'' \<and> host hub_args = ''0.0.0.0''
   \<and> get_runtime_cls ''0.0.0.0'' (\<lambda>u. True) (\<lambda>u. Inl (Failure 3)) (\<lambda>c. c) hub_args
       = Inl (Failure 3)
   \<and> get_runtime_cls ''0.0.0.0'' (\<lambda>u. False) (\<lambda>u. Inr u) (\<lambda>c. c) (example_args\<lparr>uses := None\<rparr>)
       = Inl AttributeError"
  by (simp add: selection_eval hub_args_def example_args_def)

end
